theory Spec2Isabelle
  imports Main
begin

section \<open>Text\<close>

text \<open>
  A Python \<open>str\<close> is a sequence of Unicode code points, so text is modelled as a list of
  naturals. \<open>ustr\<close> turns an ASCII literal into such a list; code points beyond ASCII
  (the emoji of the replies) are written as numerals.
\<close>

type_synonym pystr = "nat list"

definition ustr :: "string \<Rightarrow> pystr" where
  "ustr s = map of_char s"

text \<open>\<open>needle in haystack\<close> on strings: the needle occurs as a contiguous block.\<close>

fun startswith :: "pystr \<Rightarrow> pystr \<Rightarrow> bool" where
  "startswith [] ys = True"
| "startswith (x # xs) [] = False"
| "startswith (x # xs) (y # ys) = (x = y \<and> startswith xs ys)"

fun contains :: "pystr \<Rightarrow> pystr \<Rightarrow> bool" where
  "contains xs [] = (xs = [])"
| "contains xs (y # ys) = (startswith xs (y # ys) \<or> contains xs ys)"

text \<open>
  \<open>str.isspace\<close> of one code point: the white-space table of CPython
  (\<open>_PyUnicode_IsWhitespace\<close>), which \<open>str.strip()\<close> without arguments uses.
\<close>

definition isspace :: "nat \<Rightarrow> bool" where
  "isspace c \<longleftrightarrow>
     (0x09 \<le> c \<and> c \<le> 0x0D) \<or> (0x1C \<le> c \<and> c \<le> 0x20) \<or> c = 0x85 \<or> c = 0xA0 \<or>
     c = 0x1680 \<or> (0x2000 \<le> c \<and> c \<le> 0x200A) \<or> c = 0x2028 \<or> c = 0x2029 \<or>
     c = 0x202F \<or> c = 0x205F \<or> c = 0x3000"

definition strip :: "pystr \<Rightarrow> pystr" where
  "strip s = rev (dropWhile isspace (rev (dropWhile isspace s)))"

text \<open>
  \<open>str.lower()\<close>. On a string of ASCII code points it maps \<open>A\<close>..\<open>Z\<close> to
  \<open>a\<close>..\<open>z\<close> and leaves every other code point alone. On a string with a code point
  beyond ASCII the result comes from the Unicode case tables of the Python runtime, which
  are no part of this program: that function is the parameter \<open>L\<close>.
\<close>

definition ascii_lower :: "nat \<Rightarrow> nat" where
  "ascii_lower c = (if 0x41 \<le> c \<and> c \<le> 0x5A then c + 0x20 else c)"

definition lower :: "(pystr \<Rightarrow> pystr) \<Rightarrow> pystr \<Rightarrow> pystr" where
  "lower L s = (if list_all (\<lambda>c. c < 0x80) s then map ascii_lower s else L s)"

section \<open>Requests and responses\<close>

text \<open>
  The parsed JSON body of a request (\<open>request.json\<close>). A number is an integer here; a
  JSON number with a fraction takes the same branches as \<open>JNum\<close> in everything below.
\<close>

datatype jvalue =
    JNull
  | JBool bool
  | JNum int
  | JStr pystr
  | JList "jvalue list"
  | JDict "(pystr \<times> jvalue) list"

text \<open>\<open>d.get(key, default)\<close> on a dictionary held as an association list.\<close>

definition dict_get :: "(pystr \<times> jvalue) list \<Rightarrow> pystr \<Rightarrow> jvalue \<Rightarrow> jvalue" where
  "dict_get d k dflt = (case map_of d k of None \<Rightarrow> dflt | Some v \<Rightarrow> v)"

datatype py_error = AttributeError | UnicodeEncodeError

text \<open>
  What a view returns: \<open>jsonify(fields), status\<close>, a redirect to a URL (status 302), or a
  rendered template.
\<close>

datatype response =
    Jsonify "(string \<times> pystr) list" int
  | Redirect string int
  | Render string

section \<open>The chatbot: reply texts\<close>

definition clarify_reply :: pystr where
  "clarify_reply =
     ustr ''Please tell me your career ambition or what you'd like to know! '' @ [0x1F914]"

definition greeting_reply :: pystr where
  "greeting_reply =
     ustr ''Hello there! '' @ [0x1F44B] @ ustr '' I'm a student guidance chatbot. Are you looking for tech-based job opportunities or upskilling roadmaps? '' @ [0x1F680]"

definition yes_reply :: pystr where
  "yes_reply =
     ustr ''Great! '' @ [0x2728] @ ustr '' To help you better, what specific tech job or area are you interested in? For example, 'web developer', 'data scientist', 'cybersecurity', or 'software tester'? '' @ [0x1F4A1]"

definition no_reply :: pystr where
  "no_reply =
     ustr ''Okay, no problem! '' @ [0x1F60A] @ ustr '' Is there anything else I can assist you with today, perhaps general information about IT fields or learning resources? '' @ [0x1F4DA]"

definition thanks_reply :: pystr where
  "thanks_reply =
     ustr ''You're welcome! '' @ [0x1F64F] @ ustr '' Is there anything else I can help you with regarding tech careers or learning paths? '' @ [0x1F393]"

definition bca_reply :: pystr where
  "bca_reply =
     ustr ''After BCA, you have diverse job opportunities in IT! '' @ [0x1F31F] @ ustr '' Some common roles include:\<newline>'' @
     ustr ''        - Software Developer / Engineer '' @ [0x1F4BB] @ ustr ''\<newline>'' @
     ustr ''        - Web Developer (Frontend, Backend, Full-Stack) '' @ [0x1F310] @ ustr ''\<newline>'' @
     ustr ''        - Data Analyst / Data Scientist '' @ [0x1F4CA] @ ustr ''\<newline>'' @
     ustr ''        - Cybersecurity Analyst '' @ [0x1F512] @ ustr ''\<newline>'' @
     ustr ''        - Cloud Engineer / DevOps Engineer '' @ [0x2601, 0xFE0F] @ ustr ''\<newline>'' @
     ustr ''        - Database Administrator / DBMS Engineer '' @ [0x1F5C4, 0xFE0F] @ ustr ''\<newline>'' @
     ustr ''        - IT Support Specialist '' @ [0x1F6E0, 0xFE0F] @ ustr ''\<newline>'' @
     ustr ''        - Systems Analyst '' @ [0x1F4C8] @ ustr ''\<newline>'' @
     ustr ''        - App Developer (Android/iOS) '' @ [0x1F4F1] @ ustr ''\<newline>'' @
     ustr ''        - Technical Content Writer '' @ [0x270D, 0xFE0F] @ ustr ''\<newline>'' @
     ustr ''        - Software Tester / QA Engineer '' @ [0x1F9EA] @ ustr ''\<newline>'' @
     ustr ''        - Machine Learning Engineer / AI Engineer '' @ [0x1F9E0] @ ustr ''\<newline>'' @
     ustr ''        - IoT Developer '' @ [0x1F517] @ ustr ''\<newline>'' @
     ustr ''        - Android Developer '' @ [0x1F916] @ ustr ''\<newline>'' @
     ustr ''        - iOS Developer '' @ [0x1F34E] @ ustr ''\<newline>'' @
     ustr ''        - Blockchain Developer '' @ [0x26D3, 0xFE0F] @ ustr ''\<newline>'' @
     ustr ''        - Educator / Teacher '' @ [0x1F9D1, 0x200D, 0x1F3EB] @ ustr ''\<newline>'' @
     ustr ''        - Flutter Developer '' @ [0x1F98B] @ ustr ''\<newline>'' @
     ustr ''        Would you like a roadmap for any of these, or more details on a specific role? '' @ [0x1F447]"

definition web_developer_reply :: pystr where
  "web_developer_reply =
     ustr ''A **Web Developer** builds and maintains websites. '' @ [0x1F310] @ ustr ''\<newline>'' @
     ustr ''        **Key Skills:** HTML, CSS, JavaScript (for frontend), Python/Node.js/PHP (for backend), database knowledge (SQL/NoSQL), frameworks (React, Angular, Vue, Django, Express), Git.\<newline>'' @
     ustr ''        **Typical Roadmap (Estimated Time):**\<newline>'' @
     ustr ''        1.  **Foundations:** HTML, CSS, JavaScript basics (2-4 months) '' @ [0x1F4DA] @ ustr ''\<newline>'' @
     ustr ''        2.  **Frontend Deep Dive:** Choose a framework (React/Vue/Angular) (3-6 months) '' @ [0x2728] @ ustr ''\<newline>'' @
     ustr ''        3.  **Backend Basics:** Learn a language/framework (Node.js/Python Flask/Django) (3-5 months) '' @ [0x2699, 0xFE0F] @ ustr ''\<newline>'' @
     ustr ''        4.  **Databases:** SQL (e.g., PostgreSQL) and maybe NoSQL (e.g., MongoDB) (1-2 months) '' @ [0x1F5C4, 0xFE0F] @ ustr ''\<newline>'' @
     ustr ''        5.  **Version Control:** Git & GitHub (2-4 weeks) '' @ [0x1F333] @ ustr ''\<newline>'' @
     ustr ''        6.  **Build Projects!** (Ongoing) '' @ [0x1F680]"

definition data_scientist_reply :: pystr where
  "data_scientist_reply =
     ustr ''A **Data Analyst/Scientist** extracts insights from data to aid decision-making. '' @ [0x1F4CA] @ ustr ''\<newline>'' @
     ustr ''        **Key Skills:** Python (Pandas, NumPy, Matplotlib), R, SQL, Statistics, Data Visualization, Machine Learning fundamentals.\<newline>'' @
     ustr ''        **Typical Roadmap (Estimated Time):**\<newline>'' @
     ustr ''        1.  **Programming:** Python fundamentals with data libraries (2-4 months) '' @ [0x1F40D] @ ustr ''\<newline>'' @
     ustr ''        2.  **Statistics & Math:** Probability, hypothesis testing (2-3 months) '' @ [0x2795] @ ustr ''\<newline>'' @
     ustr ''        3.  **Data Manipulation:** SQL and data cleaning techniques (1-2 months) '' @ [0x1F9F9] @ ustr ''\<newline>'' @
     ustr ''        4.  **Machine Learning:** Supervised/Unsupervised learning (3-6 months) '' @ [0x1F916] @ ustr ''\<newline>'' @
     ustr ''        5.  **Tools:** Jupyter Notebooks, scikit-learn (1 month) '' @ [0x1F6E0, 0xFE0F] @ ustr ''\<newline>'' @
     ustr ''        6.  **Practice with Real Data!** (Ongoing) '' @ [0x1F4C8]"

definition cybersecurity_reply :: pystr where
  "cybersecurity_reply =
     ustr ''A **Cybersecurity Analyst** protects systems and networks from digital threats. '' @ [0x1F512] @ ustr ''\<newline>'' @
     ustr ''        **Key Skills:** Networking (TCP/IP, firewalls), Operating Systems (Linux, Windows security), Cryptography, Vulnerability Assessment, Incident Response.\<newline>'' @
     ustr ''        **Typical Roadmap (Estimated Time):**\<newline>'' @
     ustr ''        1.  **Networking & OS Basics:** Understand how computers and networks work (2-3 months) '' @ [0x1F310] @ ustr ''\<newline>'' @
     ustr ''        2.  **Security Fundamentals:** Learn about common threats, defense mechanisms (2-4 months) '' @ [0x1F6E1, 0xFE0F] @ ustr ''\<newline>'' @
     ustr ''        3.  **Tools:** Get hands-on with security tools (e.g., Nmap, Wireshark) (1-2 months) '' @ [0x1F575, 0xFE0F, 0x200D, 0x2640, 0xFE0F] @ ustr ''\<newline>'' @
     ustr ''        4.  **Ethical Hacking:** Understand attacker mindsets (for defense) (2-3 months) '' @ [0x1F608] @ ustr ''\<newline>'' @
     ustr ''        5.  **Certifications:** Consider CompTIA Security+, CEH (3-6 months, varies) '' @ [0x1F4DC]"

definition cloud_devops_reply :: pystr where
  "cloud_devops_reply =
     ustr ''A **Cloud Engineer / DevOps Engineer** focuses on building, deploying, and managing applications in cloud environments, and automating software delivery. '' @ [0x2601, 0xFE0F] @ ustr ''\<newline>'' @
     ustr ''        **Key Skills:** Cloud Platforms (AWS, Azure, GCP), Linux, Scripting (Python/Bash), CI/CD tools (Jenkins, GitLab CI), Containerization (Docker), Orchestration (Kubernetes), Infrastructure as Code (Terraform).\<newline>'' @
     ustr ''        **Typical Roadmap (Estimated Time):**\<newline>'' @
     ustr ''        1.  **Linux & Networking:** Strong understanding of Linux command line and network basics (2-3 months) '' @ [0x1F427] @ ustr ''\<newline>'' @
     ustr ''        2.  **Cloud Fundamentals:** Learn one major cloud provider (AWS/Azure/GCP) (3-5 months) '' @ [0x1F680] @ ustr ''\<newline>'' @
     ustr ''        3.  **Scripting:** Python or Bash for automation (1-2 months) '' @ [0x270D, 0xFE0F] @ ustr ''\<newline>'' @
     ustr ''        4.  **CI/CD:** Understand continuous integration/delivery pipelines (2-3 months) '' @ [0x1F504] @ ustr ''\<newline>'' @
     ustr ''        5.  **Containerization:** Docker basics (1 month) '' @ [0x1F433] @ ustr ''\<newline>'' @
     ustr ''        6.  **IaC:** Learn Terraform or CloudFormation (1-2 months) '' @ [0x1F3D7, 0xFE0F]"

definition software_developer_reply :: pystr where
  "software_developer_reply =
     ustr ''A **Software Developer/Engineer** designs, codes, tests, and maintains software applications. '' @ [0x1F4BB] @ ustr ''\<newline>'' @
     ustr ''        **Key Skills:** Core programming language (Java, Python, C++), Data Structures & Algorithms, Object-Oriented Programming, Problem Solving, Debugging, Version Control (Git).\<newline>'' @
     ustr ''        **Typical Roadmap (Estimated Time):**\<newline>'' @
     ustr ''        1.  **Choose a Language:** Master one language (e.g., Python or Java) (2-4 months) '' @ [0x1F9E0] @ ustr ''\<newline>'' @
     ustr ''        2.  **DSA & OOP:** Solidify understanding of data structures, algorithms, and OOP (3-5 months) '' @ [0x1F9E9] @ ustr ''\<newline>'' @
     ustr ''        3.  **Development Tools:** Learn IDEs, debuggers, Git (1 month) '' @ [0x1F6E0, 0xFE0F] @ ustr ''\<newline>'' @
     ustr ''        4.  **Build Small Projects:** Apply your knowledge (Ongoing) '' @ [0x1F680] @ ustr ''\<newline>'' @
     ustr ''        5.  **Testing:** Understand unit and integration testing (2-4 weeks) '' @ [0x1F9EA] @ ustr ''\<newline>'' @
     ustr ''        6.  **Specialization:** Decide on web, mobile, desktop, or other domains (Ongoing) '' @ [0x2728]"

definition python_developer_reply :: pystr where
  "python_developer_reply =
     ustr ''A **Python Developer** specializes in building various applications, from web and data science to automation and backend systems, using the Python language. '' @ [0x1F40D] @ ustr ''\<newline>'' @
     ustr ''        **Key Skills:** Python syntax, data structures, algorithms, object-oriented programming, relevant libraries (e.g., Flask/Django for web, Pandas/NumPy for data), database interaction, Git.\<newline>'' @
     ustr ''        **Typical Roadmap (Estimated Time):**\<newline>'' @
     ustr ''        1.  **Python Fundamentals:** Syntax, variables, loops, functions, basic data structures (1-2 months) '' @ [0x1F4DA] @ ustr ''\<newline>'' @
     ustr ''        2.  **Intermediate Python:** OOP, error handling, modules, file I/O (1-2 months) '' @ [0x1F4A1] @ ustr ''\<newline>'' @
     ustr ''        3.  **Choose a Specialization:**\<newline>'' @
     ustr ''            * **Web Development:** Flask/Django (2-4 months) '' @ [0x1F310] @ ustr ''\<newline>'' @
     ustr ''            * **Data Science:** Pandas, NumPy, Matplotlib, Scikit-learn (3-6 months) '' @ [0x1F4CA] @ ustr ''\<newline>'' @
     ustr ''            * **Automation/Scripting:** OS module, regex, web scraping (1-2 months) '' @ [0x1F916] @ ustr ''\<newline>'' @
     ustr ''        4.  **Databases:** SQL with Python (e.g., SQLAlchemy/Psycopg2) (1 month) '' @ [0x1F5C4, 0xFE0F] @ ustr ''\<newline>'' @
     ustr ''        5.  **Version Control:** Git & GitHub (2-4 weeks) '' @ [0x1F333] @ ustr ''\<newline>'' @
     ustr ''        6.  **Build Projects!** (Ongoing) '' @ [0x1F680]"

definition language_developer_reply :: pystr where
  "language_developer_reply =
     ustr ''To provide a more tailored roadmap, **which specific programming language are you interested in (e.g., Java, C++, JavaScript, C#, Go, Ruby, Swift, Kotlin, etc.)?** '' @ [0x1F914] @ ustr ''\<newline>'' @
     ustr ''\<newline>'' @
     ustr ''        Generally, becoming a **Language-Based Developer** involves mastering a specific programming language and its ecosystem. '' @ [0x1F4BB] @ ustr ''\<newline>'' @
     ustr ''        **Key Skills:** Chosen language syntax, core libraries/APIs, data structures, algorithms, object-oriented/functional programming (as applicable), relevant frameworks, testing, Git.\<newline>'' @
     ustr ''        **Typical Roadmap (Estimated Time - varies by language and specialization):**\<newline>'' @
     ustr ''        1.  **Language Fundamentals:** Syntax, basic constructs, data types (1-3 months) '' @ [0x1F4DA] @ ustr ''\<newline>'' @
     ustr ''        2.  **Core Concepts:** OOP/Functional paradigms, error handling, standard library usage (2-4 months) '' @ [0x1F4A1] @ ustr ''\<newline>'' @
     ustr ''        3.  **Ecosystem & Frameworks:** Learn popular frameworks/libraries for web, mobile, desktop, or enterprise applications in that language (3-6 months) '' @ [0x2728] @ ustr ''\<newline>'' @
     ustr ''        4.  **Databases:** How to interact with databases from your chosen language (1-2 months) '' @ [0x1F5C4, 0xFE0F] @ ustr ''\<newline>'' @
     ustr ''        5.  **Version Control:** Git & GitHub (2-4 weeks) '' @ [0x1F333] @ ustr ''\<newline>'' @
     ustr ''        6.  **Build Projects!** (Ongoing) '' @ [0x1F680]"

definition software_tester_reply :: pystr where
  "software_tester_reply =
     ustr ''A **Software Tester / QA Engineer** ensures the quality of software by identifying bugs, defects, and ensuring it meets requirements. '' @ [0x1F9EA] @ ustr ''\<newline>'' @
     ustr ''        **Key Skills:** Software Testing Life Cycle (STLC), Test Case Design, Bug Reporting, Manual Testing, Automation Testing (Selenium, Playwright), SQL basics, understanding of SDLC.\<newline>'' @
     ustr ''        **Typical Roadmap (Estimated Time):**\<newline>'' @
     ustr ''        1.  **Testing Fundamentals:** SDLC, STLC, types of testing (manual, automation, performance, security) (1-2 months) '' @ [0x1F4DA] @ ustr ''\<newline>'' @
     ustr ''        2.  **Test Case Design & Execution:** Writing effective test cases, bug tracking tools (Jira, Bugzilla) (1-2 months) '' @ [0x1F4DD] @ ustr ''\<newline>'' @
     ustr ''        3.  **SQL Basics:** For database testing (2-4 weeks) '' @ [0x1F5C4, 0xFE0F] @ ustr ''\<newline>'' @
     ustr ''        4.  **Automation Testing Intro:** Learn a tool/framework (e.g., Selenium with Python/Java) (3-5 months) '' @ [0x1F916] @ ustr ''\<newline>'' @
     ustr ''        5.  **API Testing:** Tools like Postman (1 month) '' @ [0x1F50C] @ ustr ''\<newline>'' @
     ustr ''        6.  **Version Control:** Git basics (2-4 weeks) '' @ [0x1F333] @ ustr ''\<newline>'' @
     ustr ''        7.  **Practice with Projects!** (Ongoing) '' @ [0x2705]"

definition ml_engineer_reply :: pystr where
  "ml_engineer_reply =
     ustr ''A **Machine Learning Engineer** designs, builds, and deploys AI/ML models into production systems. '' @ [0x1F9E0] @ ustr ''\<newline>'' @
     ustr ''        **Key Skills:** Python (NumPy, Pandas, Scikit-learn, TensorFlow/PyTorch), Linear Algebra, Calculus, Statistics, Machine Learning Algorithms, Deep Learning, MLOps, Cloud Platforms (AWS Sagemaker, Azure ML).\<newline>'' @
     ustr ''        **Typical Roadmap (Estimated Time):**\<newline>'' @
     ustr ''        1.  **Python & Data Science Basics:** Python fundamentals, Pandas, NumPy (2-3 months) '' @ [0x1F40D] @ ustr ''\<newline>'' @
     ustr ''        2.  **Mathematics for ML:** Linear Algebra, Calculus, Statistics (2-4 months) '' @ [0x2795] @ ustr ''\<newline>'' @
     ustr ''        3.  **Core ML Algorithms:** Supervised, Unsupervised, Reinforcement Learning (3-6 months) '' @ [0x1F916] @ ustr ''\<newline>'' @
     ustr ''        4.  **Deep Learning:** Neural Networks, frameworks (TensorFlow/PyTorch) (3-6 months) '' @ [0x1F4A1] @ ustr ''\<newline>'' @
     ustr ''        5.  **MLOps & Deployment:** Docker, Kubernetes, cloud ML services (2-4 months) '' @ [0x2601, 0xFE0F] @ ustr ''\<newline>'' @
     ustr ''        6.  **Build End-to-End Projects!** (Ongoing) '' @ [0x1F680]"

definition dbms_reply :: pystr where
  "dbms_reply =
     ustr ''A **DBMS Engineer / Database Administrator (DBA) / Database Architect** designs, implements, maintains, and optimizes databases to ensure data integrity, security, and performance. '' @ [0x1F5C4, 0xFE0F] @ ustr ''\<newline>'' @
     ustr ''        **Key Skills:** SQL (Advanced), Database Management Systems (MySQL, PostgreSQL, Oracle, SQL Server), NoSQL Databases (MongoDB, Cassandra), Database Design & Modeling, Performance Tuning, Backup & Recovery, Security.\<newline>'' @
     ustr ''        **Typical Roadmap (Estimated Time):**\<newline>'' @
     ustr ''        1.  **SQL Fundamentals:** Queries, DDL, DML (1-2 months) '' @ [0x1F4DD] @ ustr ''\<newline>'' @
     ustr ''        2.  **Relational Database Concepts:** Normalization, ACID properties (1 month) '' @ [0x1F9E9] @ ustr ''\<newline>'' @
     ustr ''        3.  **Specific RDBMS:** In-depth knowledge of one (e.g., MySQL or PostgreSQL) (2-4 months) '' @ [0x1F4CA] @ ustr ''\<newline>'' @
     ustr ''        4.  **Database Design & Modeling:** ER diagrams, schema design (1-2 months) '' @ [0x1F4D0] @ ustr ''\<newline>'' @
     ustr ''        5.  **Performance Tuning & Optimization:** Indexing, query optimization (2-3 months) '' @ [0x26A1] @ ustr ''\<newline>'' @
     ustr ''        6.  **Backup, Recovery & Security:** Strategies and implementation (1-2 months) '' @ [0x1F512] @ ustr ''\<newline>'' @
     ustr ''        7.  **NoSQL Databases (Optional but Recommended):** Basics of MongoDB, Cassandra (1-2 months) '' @ [0x1F4C2] @ ustr ''\<newline>'' @
     ustr ''        8.  **Practice with Real-World Scenarios!** (Ongoing) '' @ [0x1F680]"

definition iot_developer_reply :: pystr where
  "iot_developer_reply =
     ustr ''An **IoT Developer** specializes in building and deploying solutions for interconnected devices, focusing on hardware, software, and data communication. '' @ [0x1F517] @ ustr ''\<newline>'' @
     ustr ''        **Key Skills:** Embedded Systems (Arduino, Raspberry Pi), Programming (Python, C/C++), Networking Protocols (MQTT, HTTP), Cloud Platforms (AWS IoT, Azure IoT Hub), Data Processing, Security.\<newline>'' @
     ustr ''        **Typical Roadmap (Estimated Time):**\<newline>'' @
     ustr ''        1.  **Electronics & Microcontrollers:** Basics of circuits, Arduino/Raspberry Pi (2-3 months) '' @ [0x1F4A1] @ ustr ''\<newline>'' @
     ustr ''        2.  **Embedded Programming:** C/C++ for microcontrollers, Python for higher-level logic (2-4 months) '' @ [0x1F4BB] @ ustr ''\<newline>'' @
     ustr ''        3.  **Networking & Protocols:** TCP/IP, MQTT, HTTP, CoAP (1-2 months) '' @ [0x1F4E1] @ ustr ''\<newline>'' @
     ustr ''        4.  **IoT Platforms:** Learn one cloud IoT platform (e.g., AWS IoT Core, Azure IoT Hub) (2-4 months) '' @ [0x2601, 0xFE0F] @ ustr ''\<newline>'' @
     ustr ''        5.  **Data Handling:** Sensor data acquisition, basic data processing (1-2 months) '' @ [0x1F4CA] @ ustr ''\<newline>'' @
     ustr ''        6.  **Security in IoT:** Understanding vulnerabilities and best practices (1 month) '' @ [0x1F512] @ ustr ''\<newline>'' @
     ustr ''        7.  **Build End-to-End IoT Projects!** (Ongoing) '' @ [0x1F3E0]"

definition android_developer_reply :: pystr where
  "android_developer_reply =
     ustr ''An **Android Developer** builds applications for the Android operating system. '' @ [0x1F916] @ ustr ''\<newline>'' @
     ustr ''        **Key Skills:** Java or Kotlin, Android SDK, Android Studio, XML for UI layouts, Material Design, API integration, databases (SQLite/Room), Git.\<newline>'' @
     ustr ''        **Typical Roadmap (Estimated Time):**\<newline>'' @
     ustr ''        1.  **Java or Kotlin Fundamentals:** Master one language (2-4 months) '' @ [0x1F4DA] @ ustr ''\<newline>'' @
     ustr ''        2.  **Android Basics:** Android SDK, Android Studio IDE, basic UI components (3-5 months) '' @ [0x1F4F1] @ ustr ''\<newline>'' @
     ustr ''        3.  **Advanced UI/UX:** Material Design, custom views (1-2 months) '' @ [0x2728] @ ustr ''\<newline>'' @
     ustr ''        4.  **Data Storage:** SQLite, Room Persistence Library (1-2 months) '' @ [0x1F5C4, 0xFE0F] @ ustr ''\<newline>'' @
     ustr ''        5.  **API Integration:** Working with REST APIs (1-2 months) '' @ [0x1F50C] @ ustr ''\<newline>'' @
     ustr ''        6.  **Version Control:** Git & GitHub (2-4 weeks) '' @ [0x1F333] @ ustr ''\<newline>'' @
     ustr ''        7.  **Build and Publish Apps!** (Ongoing) '' @ [0x1F680]"

definition ios_developer_reply :: pystr where
  "ios_developer_reply =
     ustr ''An **iOS Developer** builds applications for Apple's iOS ecosystem (iPhone, iPad). '' @ [0x1F34E] @ ustr ''\<newline>'' @
     ustr ''        **Key Skills:** Swift or Objective-C, Xcode IDE, iOS SDK, SwiftUI/UIKit for UI, API integration, Core Data/Realm, Git.\<newline>'' @
     ustr ''        **Typical Roadmap (Estimated Time):**\<newline>'' @
     ustr ''        1.  **Swift Fundamentals:** Master the Swift programming language (2-4 months) '' @ [0x1F4DA] @ ustr ''\<newline>'' @
     ustr ''        2.  **iOS Basics:** Xcode IDE, iOS SDK, basic UI (UIKit/SwiftUI) (3-5 months) '' @ [0x1F4F1] @ ustr ''\<newline>'' @
     ustr ''        3.  **Advanced UI/UX:** Complex layouts, animations (1-2 months) '' @ [0x2728] @ ustr ''\<newline>'' @
     ustr ''        4.  **Data Persistence:** Core Data, Realm, User Defaults (1-2 months) '' @ [0x1F5C4, 0xFE0F] @ ustr ''\<newline>'' @
     ustr ''        5.  **API Integration:** Working with REST APIs (1-2 months) '' @ [0x1F50C] @ ustr ''\<newline>'' @
     ustr ''        6.  **Version Control:** Git & GitHub (2-4 weeks) '' @ [0x1F333] @ ustr ''\<newline>'' @
     ustr ''        7.  **Build and Publish Apps!** (Ongoing) '' @ [0x1F680]"

definition flutter_developer_reply :: pystr where
  "flutter_developer_reply =
     ustr ''A **Flutter Developer** builds natively compiled applications for mobile, web, and desktop from a single codebase using Google's Flutter UI toolkit. '' @ [0x1F98B] @ ustr ''\<newline>'' @
     ustr ''        **Key Skills:** Dart programming language, Flutter SDK, Widget-based UI, State Management (Provider, BLoC, Riverpod), API integration, Firebase/local storage, Git.\<newline>'' @
     ustr ''        **Typical Roadmap (Estimated Time):**\<newline>'' @
     ustr ''        1.  **Dart Fundamentals:** Master the Dart programming language (1-2 months) '' @ [0x1F4DA] @ ustr ''\<newline>'' @
     ustr ''        2.  **Flutter Basics:** Widgets, layout, navigation, Flutter SDK (2-4 months) '' @ [0x1F4F1] @ ustr ''\<newline>'' @
     ustr ''        3.  **State Management:** Learn a popular solution (Provider, BLoC, Riverpod) (1-2 months) '' @ [0x1F9E9] @ ustr ''\<newline>'' @
     ustr ''        4.  **API Integration:** Fetching data from web services (1-2 months) '' @ [0x1F50C] @ ustr ''\<newline>'' @
     ustr ''        5.  **Local Data Persistence:** Shared Preferences, SQLite (1 month) '' @ [0x1F5C4, 0xFE0F] @ ustr ''\<newline>'' @
     ustr ''        6.  **Firebase/Backend Integration:** Cloud Firestore, Authentication (1-2 months) '' @ [0x2601, 0xFE0F] @ ustr ''\<newline>'' @
     ustr ''        7.  **Version Control:** Git & GitHub (2-4 weeks) '' @ [0x1F333] @ ustr ''\<newline>'' @
     ustr ''        8.  **Build and Deploy Cross-Platform Apps!** (Ongoing) '' @ [0x1F680]"

definition blockchain_developer_reply :: pystr where
  "blockchain_developer_reply =
     ustr ''A **Blockchain Developer** designs and implements decentralized applications (DApps) and smart contracts on blockchain platforms. '' @ [0x26D3, 0xFE0F] @ ustr ''\<newline>'' @
     ustr ''        **Key Skills:** Cryptography basics, Distributed Ledger Technology (DLT), Smart Contract Languages (e.g., Solidity for Ethereum), Blockchain Platforms (Ethereum, Hyperledger, Corda), Web3.js/Ethers.js, Token Standards (ERC-20, ERC-721), Git.\<newline>'' @
     ustr ''        **Typical Roadmap (Estimated Time):**\<newline>'' @
     ustr ''        1.  **Fundamentals:** Cryptography, Distributed Systems, Networking basics (2-3 months) '' @ [0x1F4DA] @ ustr ''\<newline>'' @
     ustr ''        2.  **Blockchain Concepts:** Consensus mechanisms, immutability, decentralization (1-2 months) '' @ [0x1F4A1] @ ustr ''\<newline>'' @
     ustr ''        3.  **Smart Contracts:** Learn Solidity (for Ethereum) or equivalent for other platforms (3-5 months) '' @ [0x1F4DD] @ ustr ''\<newline>'' @
     ustr ''        4.  **Blockchain Platforms:** Dive deep into Ethereum, or explore Hyperledger, Polkadot, etc. (2-4 months) '' @ [0x1F310] @ ustr ''\<newline>'' @
     ustr ''        5.  **Web3 Development:** Interacting with blockchains from frontend apps (Web3.js/Ethers.js) (1-2 months) '' @ [0x1F50C] @ ustr ''\<newline>'' @
     ustr ''        6.  **Security in Blockchain:** Common vulnerabilities, best practices (1 month) '' @ [0x1F512] @ ustr ''\<newline>'' @
     ustr ''        7.  **Build DApps and Projects!** (Ongoing) '' @ [0x1F680]"

definition educator_reply :: pystr where
  "educator_reply =
     ustr ''An **Educator / Teacher** in the computer science or IT field shares knowledge and guides students in academic or vocational settings. '' @ [0x1F9D1, 0x200D, 0x1F3EB] @ ustr ''\<newline>'' @
     ustr ''        **Key Skills:** Strong subject matter expertise (Computer Science, programming, IT concepts), excellent communication, presentation skills, patience, curriculum development, classroom management (if applicable).\<newline>'' @
     ustr ''        **Typical Roadmap (Estimated Time):**\<newline>'' @
     ustr ''        1.  **Strong BCA Foundation:** Master core computer science concepts (Ongoing throughout BCA) '' @ [0x1F393] @ ustr ''\<newline>'' @
     ustr ''        2.  **Further Education:** MCA, M.Sc. in CS/IT, or B.Ed. (for school-level teaching) (2-3 years) '' @ [0x1F4DA] @ ustr ''\<newline>'' @
     ustr ''        3.  **Communication & Presentation Skills:** Practice explaining complex topics clearly (Ongoing) '' @ [0x1F5E3, 0xFE0F] @ ustr ''\<newline>'' @
     ustr ''        4.  **Pedagogy Basics:** Understand teaching methodologies (can be self-taught or through B.Ed.) (1-3 months) '' @ [0x1F4A1] @ ustr ''\<newline>'' @
     ustr ''        5.  **Practical Experience:** Internships, tutoring, teaching assistant roles (Ongoing) '' @ [0x1F91D] @ ustr ''\<newline>'' @
     ustr ''        6.  **Specialization:** Focus on specific subjects you want to teach (e.g., Python, Web Dev, Data Science) (Ongoing) '' @ [0x2728]"

definition capability_reply :: pystr where
  "capability_reply =
     ustr ''I'm sorry, I can only provide guidance for specific tech career paths like Web Developer, Data Scientist, Cybersecurity, Cloud/DevOps, Software Developer, Python Developer, Software Tester, Machine Learning Engineer, Database roles, IoT Developer, Android Developer, iOS Developer, Blockchain Developer, Educator, or Flutter Developer. You might find more general help by trying a broader AI like Google Gemini: [https://gemini.google.com/](https://gemini.google.com/) '' @ [0x1F916]"

definition rephrase_reply :: pystr where
  "rephrase_reply =
     ustr ''Sorry, I couldn't understand your request. Can you please ask again, perhaps by mentioning a specific tech career or skill? '' @ [0x1F914]"

section \<open>The chatbot: the tests of the branches\<close>

text \<open>
  One predicate for the test of each \<open>if\<close>/\<open>elif\<close> branch of \<open>chat\<close>, in the order of
  the source, on the lower-cased and stripped message.
\<close>

definition is_greeting :: "pystr \<Rightarrow> bool" where
  "is_greeting user_message \<longleftrightarrow>
     list_ex (\<lambda>greeting_word. contains greeting_word user_message)
       [ustr ''hello'', ustr ''hi'', ustr ''hey'', ustr ''good morning'', ustr ''good afternoon'', ustr ''good evening'', ustr ''good night'', ustr ''how are you'', ustr ''what's up'', ustr ''greetings'']"

definition is_yes :: "pystr \<Rightarrow> bool" where
  "is_yes user_message \<longleftrightarrow>
     user_message \<in> set [ustr ''yes'', ustr ''yeah'', ustr ''yep'', ustr ''yup'', ustr ''sure'', ustr ''definitely'']"

definition is_no :: "pystr \<Rightarrow> bool" where
  "is_no user_message \<longleftrightarrow>
     user_message \<in> set [ustr ''no'', ustr ''nope'', ustr ''not really'', ustr ''nah'']"

definition is_thanks :: "pystr \<Rightarrow> bool" where
  "is_thanks user_message \<longleftrightarrow>
     contains (ustr ''thanks'') user_message \<or>
     contains (ustr ''thank you'') user_message \<or>
     contains (ustr ''ty'') user_message"

definition is_bca :: "pystr \<Rightarrow> bool" where
  "is_bca user_message \<longleftrightarrow>
     contains (ustr ''job opportunities after bca'') user_message \<or>
     contains (ustr ''jobs after bca'') user_message \<or>
     contains (ustr ''career after bca'') user_message"

definition is_web_developer :: "pystr \<Rightarrow> bool" where
  "is_web_developer user_message \<longleftrightarrow>
     contains (ustr ''web developer'') user_message \<or>
     contains (ustr ''web dev'') user_message \<or>
     contains (ustr ''frontend'') user_message \<or>
     contains (ustr ''backend'') user_message"

definition is_data_scientist :: "pystr \<Rightarrow> bool" where
  "is_data_scientist user_message \<longleftrightarrow>
     contains (ustr ''data scientist'') user_message \<or>
     contains (ustr ''data analyst'') user_message \<or>
     contains (ustr ''data science'') user_message"

definition is_cybersecurity :: "pystr \<Rightarrow> bool" where
  "is_cybersecurity user_message \<longleftrightarrow>
     contains (ustr ''cybersecurity'') user_message \<or>
     contains (ustr ''cyber security'') user_message \<or>
     contains (ustr ''security analyst'') user_message"

definition is_cloud_devops :: "pystr \<Rightarrow> bool" where
  "is_cloud_devops user_message \<longleftrightarrow>
     contains (ustr ''cloud engineer'') user_message \<or>
     contains (ustr ''devops'') user_message \<or>
     contains (ustr ''devops engineer'') user_message \<or>
     contains (ustr ''cloud computing'') user_message"

definition is_software_developer :: "pystr \<Rightarrow> bool" where
  "is_software_developer user_message \<longleftrightarrow>
     contains (ustr ''software developer'') user_message \<or>
     contains (ustr ''software engineer'') user_message \<or>
     contains (ustr ''programmer'') user_message"

definition is_python_developer :: "pystr \<Rightarrow> bool" where
  "is_python_developer user_message \<longleftrightarrow>
     contains (ustr ''python developer'') user_message \<or>
     contains (ustr ''python programming'') user_message"

definition is_language_developer :: "pystr \<Rightarrow> bool" where
  "is_language_developer user_message \<longleftrightarrow>
     contains (ustr ''java developer'') user_message \<or>
     contains (ustr ''java programming'') user_message \<or>
     contains (ustr ''c++ developer'') user_message \<or>
     contains (ustr ''c++ programming'') user_message \<or>
     contains (ustr ''javascript developer'') user_message \<or>
     contains (ustr ''javascript programming'') user_message \<or>
     contains (ustr ''language based developer'') user_message"

definition is_software_tester :: "pystr \<Rightarrow> bool" where
  "is_software_tester user_message \<longleftrightarrow>
     contains (ustr ''software tester'') user_message \<or>
     contains (ustr ''qa engineer'') user_message \<or>
     contains (ustr ''quality assurance'') user_message \<or>
     contains (ustr ''software testing'') user_message"

definition is_ml_engineer :: "pystr \<Rightarrow> bool" where
  "is_ml_engineer user_message \<longleftrightarrow>
     contains (ustr ''machine learning engineer'') user_message \<or>
     contains (ustr ''ml engineer'') user_message \<or>
     contains (ustr ''ai engineer'') user_message \<or>
     contains (ustr ''artificial intelligence engineer'') user_message"

definition is_dbms :: "pystr \<Rightarrow> bool" where
  "is_dbms user_message \<longleftrightarrow>
     contains (ustr ''dbms'') user_message \<or>
     contains (ustr ''database architect'') user_message \<or>
     contains (ustr ''database engineer'') user_message \<or>
     contains (ustr ''database administrator'') user_message"

definition is_iot_developer :: "pystr \<Rightarrow> bool" where
  "is_iot_developer user_message \<longleftrightarrow>
     contains (ustr ''iot developer'') user_message \<or>
     contains (ustr ''internet of things developer'') user_message"

definition is_android_developer :: "pystr \<Rightarrow> bool" where
  "is_android_developer user_message \<longleftrightarrow>
     contains (ustr ''android developer'') user_message \<or>
     contains (ustr ''android app'') user_message \<or>
     contains (ustr ''mobile developer android'') user_message"

definition is_ios_developer :: "pystr \<Rightarrow> bool" where
  "is_ios_developer user_message \<longleftrightarrow>
     contains (ustr ''ios developer'') user_message \<or>
     contains (ustr ''ios app'') user_message \<or>
     contains (ustr ''mobile developer ios'') user_message"

definition is_flutter_developer :: "pystr \<Rightarrow> bool" where
  "is_flutter_developer user_message \<longleftrightarrow>
     contains (ustr ''flutter developer'') user_message \<or>
     contains (ustr ''flutter programming'') user_message \<or>
     contains (ustr ''flutter app'') user_message \<or>
     contains (ustr ''cross-platform mobile developer'') user_message"

definition is_blockchain_developer :: "pystr \<Rightarrow> bool" where
  "is_blockchain_developer user_message \<longleftrightarrow>
     contains (ustr ''blockchain developer'') user_message \<or>
     contains (ustr ''blockchain programming'') user_message \<or>
     contains (ustr ''crypto developer'') user_message"

definition is_educator :: "pystr \<Rightarrow> bool" where
  "is_educator user_message \<longleftrightarrow>
     contains (ustr ''educator'') user_message \<or>
     contains (ustr ''teacher'') user_message \<or>
     contains (ustr ''professor'') user_message \<or>
     contains (ustr ''lecturer'') user_message \<or>
     contains (ustr ''computer instructor'') user_message"

section \<open>The chatbot: the rule cascade\<close>

text \<open>
  The body of \<open>chat\<close> after the message has been read: the \<open>if\<close>/\<open>elif\<close> cascade on the
  normalised message. The global \<open>consecutive_errors\<close> is passed in and returned. Every
  matched branch assigns 0 to it and returns its reply; the code after the cascade
  increments it and chooses between the two fallback replies.
\<close>

definition chat_rules :: "pystr \<Rightarrow> int \<Rightarrow> pystr \<times> int" where
  "chat_rules user_message consecutive_errors =
     (if user_message = [] then (clarify_reply, 0)
      else if is_greeting user_message then (greeting_reply, 0)
      else if is_yes user_message then (yes_reply, 0)
      else if is_no user_message then (no_reply, 0)
      else if is_thanks user_message then (thanks_reply, 0)
      else if is_bca user_message then (bca_reply, 0)
      else if is_web_developer user_message then (web_developer_reply, 0)
      else if is_data_scientist user_message then (data_scientist_reply, 0)
      else if is_cybersecurity user_message then (cybersecurity_reply, 0)
      else if is_cloud_devops user_message then (cloud_devops_reply, 0)
      else if is_software_developer user_message then (software_developer_reply, 0)
      else if is_python_developer user_message then (python_developer_reply, 0)
      else if is_language_developer user_message then (language_developer_reply, 0)
      else if is_software_tester user_message then (software_tester_reply, 0)
      else if is_ml_engineer user_message then (ml_engineer_reply, 0)
      else if is_dbms user_message then (dbms_reply, 0)
      else if is_iot_developer user_message then (iot_developer_reply, 0)
      else if is_android_developer user_message then (android_developer_reply, 0)
      else if is_ios_developer user_message then (ios_developer_reply, 0)
      else if is_flutter_developer user_message then (flutter_developer_reply, 0)
      else if is_blockchain_developer user_message then (blockchain_developer_reply, 0)
      else if is_educator user_message then (educator_reply, 0)
      else
        (let consecutive_errors = consecutive_errors + 1
         in if consecutive_errors \<ge> 2 then (capability_reply, 0)
            else (rephrase_reply, consecutive_errors)))"

text \<open>
  The view \<open>chat\<close>. \<open>data\<close> is \<open>request.json\<close>. Reading the message is
  \<open>request.json.get("message", "").lower().strip()\<close>: a body that is no dictionary has no
  \<open>get\<close>, and a message that is no string has no \<open>lower\<close>; both raise
  \<open>AttributeError\<close> before the counter is touched. Otherwise the view returns
  \<open>jsonify({"reply": reply})\<close> with status 200.
\<close>

definition chat :: "(pystr \<Rightarrow> pystr) \<Rightarrow> jvalue \<Rightarrow> int \<Rightarrow> (py_error + response) \<times> int" where
  "chat L data consecutive_errors =
     (case data of
        JDict d \<Rightarrow>
          (case dict_get d (ustr ''message'') (JStr []) of
             JStr m \<Rightarrow>
               (let user_message = strip (lower L m);
                    (reply, consecutive_errors') = chat_rules user_message consecutive_errors
                in (Inr (Jsonify [(''reply'', reply)] 200), consecutive_errors'))
           | _ \<Rightarrow> (Inl AttributeError, consecutive_errors))
      | _ \<Rightarrow> (Inl AttributeError, consecutive_errors))"

text \<open>
  A message falls through the cascade when it is not empty and no rule matches it: the
  "unmatched" inputs, which reach the code after the last \<open>elif\<close>.
\<close>

definition unmatched :: "pystr \<Rightarrow> bool" where
  "unmatched user_message \<longleftrightarrow>
     user_message \<noteq> [] \<and> \<not> is_greeting user_message \<and> \<not> is_yes user_message \<and>
     \<not> is_no user_message \<and> \<not> is_thanks user_message \<and> \<not> is_bca user_message \<and>
     \<not> is_web_developer user_message \<and> \<not> is_data_scientist user_message \<and>
     \<not> is_cybersecurity user_message \<and> \<not> is_cloud_devops user_message \<and>
     \<not> is_software_developer user_message \<and> \<not> is_python_developer user_message \<and>
     \<not> is_language_developer user_message \<and> \<not> is_software_tester user_message \<and>
     \<not> is_ml_engineer user_message \<and> \<not> is_dbms user_message \<and>
     \<not> is_iot_developer user_message \<and> \<not> is_android_developer user_message \<and>
     \<not> is_ios_developer user_message \<and> \<not> is_flutter_developer user_message \<and>
     \<not> is_blockchain_developer user_message \<and> \<not> is_educator user_message"

text \<open>The body \<open>{"message": m}\<close> and the response that carries a reply.\<close>

definition message_body :: "pystr \<Rightarrow> jvalue" where
  "message_body m = JDict [(ustr ''message'', JStr m)]"

definition reply_response :: "pystr \<Rightarrow> py_error + response" where
  "reply_response reply = Inr (Jsonify [(''reply'', reply)] 200)"

text \<open>
  A run of chat requests against one process: the counter left by one call is the
  counter the next call starts from. The result is the list of outcomes and the counter
  after the last call.
\<close>

fun chat_run :: "(pystr \<Rightarrow> pystr) \<Rightarrow> int \<Rightarrow> jvalue list \<Rightarrow> (py_error + response) list \<times> int" where
  "chat_run L c [] = ([], c)"
| "chat_run L c (data # rest) =
     (let (out, c') = chat L data c; (outs, c'') = chat_run L c' rest
      in (out # outs, c''))"

section \<open>The account store\<close>

text \<open>
  A row of the table \<open>users\<close>. The table is the list of its rows in insertion order.
  The schema declares \<open>username\<close> and \<open>email\<close> \<open>UNIQUE\<close> and \<open>id\<close> the primary key, so
  a table the database can hold satisfies \<open>table_ok\<close>.
\<close>

record user =
  row_id :: int
  username :: pystr
  email :: pystr
  password :: pystr
  member_since :: pystr

definition table_ok :: "user list \<Rightarrow> bool" where
  "table_ok rows \<longleftrightarrow>
     distinct (map row_id rows) \<and> distinct (map username rows) \<and> distinct (map email rows)"

text \<open>\<open>INTEGER PRIMARY KEY AUTOINCREMENT\<close>: one more than the largest id given so far.\<close>

definition next_id :: "user list \<Rightarrow> int" where
  "next_id rows = fold max (map row_id rows) 0 + 1"

definition message :: "string \<Rightarrow> int \<Rightarrow> response" where
  "message text status = Jsonify [(''message'', ustr text)] status"

text \<open>
  \<open>cursor.execute(sql, parameters)\<close> hands each parameter to Python's \<open>sqlite3\<close>
  module, which is no part of this program. What that module does with one string
  parameter is the parameter \<open>B\<close> of the views below: it binds the string, or binding
  raises an exception that is no \<open>sqlite3.Error\<close>, or it raises an \<open>sqlite3.Error\<close> with
  the given text. The parameters of a statement are bound in order, and the first one
  that is refused decides.
\<close>

datatype bind_outcome = Bound | Raises py_error | SqliteError pystr

fun bind_all :: "(pystr \<Rightarrow> bind_outcome) \<Rightarrow> pystr list \<Rightarrow> bind_outcome" where
  "bind_all B [] = Bound"
| "bind_all B (x # xs) = (case B x of Bound \<Rightarrow> bind_all B xs | refused \<Rightarrow> refused)"

text \<open>
  The module passes text to SQLite as UTF-8, and UTF-8 has no encoding for a surrogate
  code point: binding a string that holds one raises \<open>UnicodeEncodeError\<close>. (A JSON
  body can carry one, written as an escape.) \<open>sqlite_bind\<close> is the binding of strings
  of ordinary size.
\<close>

definition sqlite_bind :: "pystr \<Rightarrow> bind_outcome" where
  "sqlite_bind s =
     (if list_ex (\<lambda>c. 0xD800 \<le> c \<and> c \<le> 0xDFFF) s then Raises UnicodeEncodeError else Bound)"

text \<open>
  The view \<open>register_user\<close>. The three fields are \<open>data.get(...)\<close>: \<open>None\<close> when the
  key is missing (or null), otherwise the string sent. \<open>now\<close> is
  \<open>datetime.now().strftime('%B %Y')\<close>. The result is the outcome (an exception that
  leaves the view, or the response) and the table after the request.
  \<open>not email or not password or not username\<close> holds when a field is \<open>None\<close> or the
  empty string. The \<open>SELECT\<close> binds \<open>(email, username)\<close> and its \<open>fetchone\<close> is \<open>find\<close>;
  the \<open>INSERT\<close> binds \<open>(username, email, password, member_since)\<close> and appends the new
  row. An \<open>sqlite3.Error\<close> is caught: the transaction is rolled back and the answer is
  500. Any other exception leaves the view, and the connection is closed with nothing
  committed.
\<close>

definition registration_failed :: "pystr \<Rightarrow> response" where
  "registration_failed e = Jsonify [(''message'', ustr ''Registration failed: '' @ e)] 500"

definition register_user ::
  "(pystr \<Rightarrow> bind_outcome) \<Rightarrow> pystr option \<Rightarrow> pystr option \<Rightarrow> pystr option \<Rightarrow> pystr \<Rightarrow>
   user list \<Rightarrow> (py_error + response) \<times> user list" where
  "register_user B email_field password_field username_field now rows =
     (case (email_field, password_field, username_field) of
        (Some e, Some p, Some n) \<Rightarrow>
          if e = [] \<or> p = [] \<or> n = []
          then (Inr (message ''Email, password, and username are required.'' 400), rows)
          else if length p < 6
          then (Inr (message ''Password must be at least 6 characters long.'' 400), rows)
          else
            (case bind_all B [e, n] of
               Raises err \<Rightarrow> (Inl err, rows)
             | SqliteError text \<Rightarrow> (Inr (registration_failed text), rows)
             | Bound \<Rightarrow>
                 (case find (\<lambda>u. email u = e \<or> username u = n) rows of
                    Some existing_user \<Rightarrow>
                      (Inr (message ''Email or username already registered.'' 409), rows)
                  | None \<Rightarrow>
                      (case bind_all B [n, e, p, now] of
                         Raises err \<Rightarrow> (Inl err, rows)
                       | SqliteError text \<Rightarrow> (Inr (registration_failed text), rows)
                       | Bound \<Rightarrow>
                           (Inr (message ''Registration successful! Please log in.'' 201),
                            rows @ [\<lparr>row_id = next_id rows, username = n, email = e,
                                     password = p, member_since = now\<rparr>]))))
      | _ \<Rightarrow> (Inr (message ''Email, password, and username are required.'' 400), rows))"

section \<open>Sessions, login and the profile\<close>

text \<open>The three keys this program keeps in the Flask session; \<open>None\<close> is an absent key.\<close>

record session =
  sess_user_id :: "int option"
  sess_user_email :: "pystr option"
  sess_username :: "pystr option"

definition no_session :: session where
  "no_session = \<lparr>sess_user_id = None, sess_user_email = None, sess_username = None\<rparr>"

text \<open>
  The view \<open>login_user\<close>: the outcome and the session after the request. The \<open>SELECT\<close>
  binds \<open>(email,)\<close>; an \<open>sqlite3.Error\<close> is caught and answered with 500, any other
  exception leaves the view.
\<close>

definition login_user ::
  "(pystr \<Rightarrow> bind_outcome) \<Rightarrow> pystr option \<Rightarrow> pystr option \<Rightarrow> user list \<Rightarrow> session \<Rightarrow>
   (py_error + response) \<times> session" where
  "login_user B email_field password_field rows sess =
     (case (email_field, password_field) of
        (Some e, Some p) \<Rightarrow>
          if e = [] \<or> p = []
          then (Inr (message ''Email and password are required.'' 400), sess)
          else
            (case bind_all B [e] of
               Raises err \<Rightarrow> (Inl err, sess)
             | SqliteError text \<Rightarrow> (Inr (message ''Login failed. Please try again.'' 500), sess)
             | Bound \<Rightarrow>
                 (case find (\<lambda>u. email u = e) rows of
                    Some u \<Rightarrow>
                      if password u = p
                      then (Inr (message ''Login successful!'' 200),
                            sess\<lparr>sess_user_id := Some (row_id u),
                                 sess_user_email := Some (email u),
                                 sess_username := Some (username u)\<rparr>)
                      else (Inr (message ''Invalid email or password.'' 401), sess)
                  | None \<Rightarrow> (Inr (message ''Invalid email or password.'' 401), sess)))
      | _ \<Rightarrow> (Inr (message ''Email and password are required.'' 400), sess))"

text \<open>The view \<open>get_user_profile\<close>.\<close>

definition get_user_profile :: "session \<Rightarrow> user list \<Rightarrow> response" where
  "get_user_profile sess rows =
     (case sess_user_id sess of
        None \<Rightarrow> message ''Not authenticated.'' 401
      | Some user_id \<Rightarrow>
          (case find (\<lambda>u. row_id u = user_id) rows of
             Some profile_data \<Rightarrow>
               Jsonify [(''username'', username profile_data), (''email'', email profile_data),
                        (''member_since'', member_since profile_data),
                        (''account_type'', ustr ''Standard User'')] 200
           | None \<Rightarrow> message ''Profile data not found.'' 404))"

section \<open>The authentication gate\<close>

text \<open>
  A request as \<open>check_auth\<close> sees it: its path and its session. \<open>endpoint_of\<close> is
  \<open>request.endpoint\<close>, the name of the view the URL map routes the path to, from the
  \<open>@app.route\<close> decorators and Flask's static-file route.
\<close>

record request =
  path :: string
  session :: session

definition endpoint_of :: "string \<Rightarrow> string option" where
  "endpoint_of p =
     (if take 8 p = ''/static/'' \<and> 8 < length p then Some ''static''
      else map_of
        [(''/'', ''home''), (''/login'', ''login_page''), (''/register'', ''register_page''),
         (''/profile'', ''profile_page''), (''/chat_app'', ''chat_app_page''),
         (''/register_user'', ''register_user''), (''/login_user'', ''login_user''),
         (''/logout_user'', ''logout_user''), (''/get_user_profile'', ''get_user_profile''),
         (''/chat'', ''chat'')] p)"

text \<open>
  \<open>check_auth\<close> is registered with \<open>@app.before_request\<close>. \<open>None\<close> lets the request go on to
  its view; \<open>redirect(url_for('login_page'))\<close> is a 302 to \<open>/login\<close>.
\<close>

definition check_auth :: "request \<Rightarrow> response option" where
  "check_auth req =
     (if path req \<in> set [''/login'', ''/register'', ''/login_user'', ''/register_user'',
                          ''/static/style.css'', ''/static/script.js'']
      then None
      else if sess_user_id (session req) = None
      then (if endpoint_of (path req) \<noteq> Some ''login_page''
            then Some (Redirect ''/login'' 302) else None)
      else None)"

text \<open>
  Flask runs the \<open>before_request\<close> functions first; when one returns a value, that value
  is the response and the view is not called. This is a \<open>GET /get_user_profile\<close> served
  that way.
\<close>

definition serve_get_user_profile :: "session \<Rightarrow> user list \<Rightarrow> response" where
  "serve_get_user_profile sess rows =
     (case check_auth \<lparr>path = ''/get_user_profile'', session = sess\<rparr> of
        Some rv \<Rightarrow> rv
      | None \<Rightarrow> get_user_profile sess rows)"

text \<open>A field that \<open>not field\<close> rejects: absent, or the empty string.\<close>

definition missing :: "pystr option \<Rightarrow> bool" where
  "missing field \<longleftrightarrow> field = None \<or> field = Some []"

text \<open>A stored user for the examples below.\<close>

definition alice :: user where
  "alice = \<lparr>row_id = 1, username = ustr ''alice'', email = ustr ''alice@example.org'',
            password = ustr ''secret1'', member_since = ustr ''July 2025''\<rparr>"

section \<open>Substring test and normalisation\<close>

text \<open>\<open>contains\<close> is Python's \<open>in\<close> on strings: the needle sits somewhere inside.\<close>

lemma startswith_iff: "startswith xs ys \<longleftrightarrow> (\<exists>ss. ys = xs @ ss)"
  by (induction xs ys rule: startswith.induct) auto

lemma contains_iff: "contains xs ys \<longleftrightarrow> (\<exists>ps ss. ys = ps @ xs @ ss)"
proof (induction ys)
  case Nil
  show ?case by simp
next
  case (Cons y ys)
  have "(\<exists>ps ss. y # ys = ps @ xs @ ss) \<longleftrightarrow>
        (\<exists>ss. y # ys = xs @ ss) \<or> (\<exists>ps ss. ys = ps @ xs @ ss)"
    (is "?l \<longleftrightarrow> ?r")
  proof
    assume ?l
    then obtain ps ss where e: "y # ys = ps @ xs @ ss" by blast
    show ?r
    proof (cases ps)
      case Nil
      with e show ?thesis by auto
    next
      case (Cons p ps')
      with e have "ys = ps' @ xs @ ss" by simp
      then show ?thesis by blast
    qed
  next
    assume ?r
    then show ?l
    proof
      assume "\<exists>ss. y # ys = xs @ ss"
      then obtain ss where "y # ys = [] @ xs @ ss" by auto
      then show ?l by blast
    next
      assume "\<exists>ps ss. ys = ps @ xs @ ss"
      then obtain ps ss where "y # ys = (y # ps) @ xs @ ss" by auto
      then show ?l by blast
    qed
  qed
  with Cons show ?case by (simp add: startswith_iff)
qed

lemmas rule_defs = is_greeting_def is_yes_def is_no_def is_thanks_def is_bca_def
  is_web_developer_def is_data_scientist_def is_cybersecurity_def is_cloud_devops_def
  is_software_developer_def is_python_developer_def is_language_developer_def
  is_software_tester_def is_ml_engineer_def is_dbms_def is_iot_developer_def
  is_android_developer_def is_ios_developer_def is_flutter_developer_def
  is_blockchain_developer_def is_educator_def

lemmas norm_defs = strip_def lower_def ustr_def ascii_lower_def isspace_def

lemma lower_ascii_independent:
  "list_all (\<lambda>c. c < 0x80) s \<Longrightarrow> lower L s = lower L' s"
  by (simp add: lower_def)

section \<open>The chat view on a message\<close>

lemma chat_message_body:
  "chat L (message_body m) c =
     (reply_response (fst (chat_rules (strip (lower L m)) c)),
      snd (chat_rules (strip (lower L m)) c))"
  by (simp add: chat_def message_body_def dict_get_def reply_response_def split: prod.splits)

lemma chat_rules_fallthrough:
  "unmatched um \<Longrightarrow>
   chat_rules um c = (if c + 1 \<ge> 2 then (capability_reply, 0) else (rephrase_reply, c + 1))"
  by (simp add: chat_rules_def unmatched_def Let_def)

lemma chat_rules_nonzero_unmatched: "snd (chat_rules um c) \<noteq> 0 \<Longrightarrow> unmatched um"
  unfolding chat_rules_def unmatched_def by (simp split: if_splits)

lemma chat_rules_empty: "chat_rules [] c = (clarify_reply, 0)"
  by (simp add: chat_rules_def)

text \<open>The error path of the view is real: a message that is no string raises.\<close>

lemma chat_null_message_raises:
  "chat L (JDict [(ustr ''message'', JNull)]) c = (Inl AttributeError, c)"
  by (simp add: chat_def dict_get_def)

lemma chat_list_body_raises: "chat L (JList []) c = (Inl AttributeError, c)"
  by (simp add: chat_def)

lemma fallback_replies_differ: "rephrase_reply \<noteq> capability_reply"
  by (simp add: rephrase_reply_def capability_reply_def ustr_def)

section \<open>The error-streak counter\<close>

lemma chat_counter_range:
  assumes "c = 0 \<or> c = 1"
  shows "snd (chat L data c) = 0 \<or> snd (chat L data c) = 1"
proof (cases "\<exists>d m. data = JDict d \<and> dict_get d (ustr ''message'') (JStr []) = JStr m")
  case True
  then obtain d m where dm: "data = JDict d" "dict_get d (ustr ''message'') (JStr []) = JStr m"
    by blast
  have eq: "snd (chat L data c) = snd (chat_rules (strip (lower L m)) c)"
    by (simp add: chat_def dm split: prod.splits)
  show ?thesis
  proof (cases "unmatched (strip (lower L m))")
    case True
    with assms show ?thesis unfolding eq by (auto simp add: chat_rules_fallthrough)
  next
    case False
    then show ?thesis unfolding eq using chat_rules_nonzero_unmatched by blast
  qed
next
  case False
  then have "snd (chat L data c) = c"
    by (auto simp add: chat_def split: jvalue.splits)
  with assms show ?thesis by simp
qed

lemma chat_run_counter_range:
  "c = 0 \<or> c = 1 \<Longrightarrow> snd (chat_run L c reqs) = 0 \<or> snd (chat_run L c reqs) = 1"
proof (induction reqs arbitrary: c)
  case Nil
  then show ?case by simp
next
  case (Cons data rest)
  from chat_counter_range [OF Cons.prems, of L data]
  have "snd (chat L data c) = 0 \<or> snd (chat L data c) = 1" .
  from Cons.IH [OF this] show ?case
    by (simp add: split_beta)
qed

text \<open>
  Claim C10. The process starts with \<open>consecutive_errors = 0\<close>. After any sequence of
  chat requests, whatever their bodies (requests whose message is no string included),
  the counter is 0 or 1: no sequence of calls leaves it at 2 or more between requests.
\<close>

theorem counter_zero_or_one:
  "snd (chat_run L 0 reqs) = 0 \<or> snd (chat_run L 0 reqs) = 1"
  by (rule chat_run_counter_range) simp

text \<open>
  Claim C3. For every message string \<open>m\<close> (the empty string and unmatched text
  included) and every value \<open>c\<close> of the counter, the view returns a 200 response that
  carries a reply string; it does not raise.
\<close>

theorem chat_total_on_strings:
  "\<exists>reply c'. chat L (message_body m) c = (Inr (Jsonify [(''reply'', reply)] 200), c')"
  by (simp add: chat_message_body reply_response_def)

text \<open>
  Claim C4. When the lower-cased, stripped message takes any branch other than the
  fall-through after the cascade, the counter is 0 after the call, whatever it was
  before. The empty message is such a branch, and it returns the clarification prompt.
\<close>

theorem matched_branch_resets_counter:
  "(\<not> unmatched (strip (lower L m)) \<longrightarrow> snd (chat L (message_body m) c) = 0) \<and>
   (strip (lower L m) = [] \<longrightarrow> chat L (message_body m) c = (reply_response clarify_reply, 0))"
  using chat_rules_nonzero_unmatched [of "strip (lower L m)" c]
  by (auto simp add: chat_message_body chat_rules_empty)

lemma hello_is_matched: "\<not> unmatched (strip (lower (\<lambda>s. s) (ustr ''Hello'')))"
  by (simp add: norm_defs unmatched_def is_greeting_def)

lemma blanks_strip_to_empty: "strip (lower (\<lambda>s. s) (ustr ''   '')) = []"
  by (simp add: norm_defs)

theorem matched_branch_resets_counter_witness:
  "\<not> unmatched (strip (lower (\<lambda>s. s) (ustr ''Hello''))) \<and>
   snd (chat (\<lambda>s. s) (message_body (ustr ''Hello'')) 1) = 0 \<and>
   strip (lower (\<lambda>s. s) (ustr ''   '')) = [] \<and>
   \<not> unmatched (strip (lower (\<lambda>s. s) (ustr ''   ''))) \<and>
   chat (\<lambda>s. s) (message_body (ustr ''   '')) 1 = (reply_response clarify_reply, 0)"
proof -
  have c: "\<not> unmatched (strip (lower (\<lambda>s. s) (ustr ''   '')))"
    by (simp add: blanks_strip_to_empty unmatched_def)
  show ?thesis
    using hello_is_matched blanks_strip_to_empty c
      matched_branch_resets_counter [of "\<lambda>s. s" "ustr ''Hello''" 1]
      matched_branch_resets_counter [of "\<lambda>s. s" "ustr ''   ''" 1]
    by blast
qed

text \<open>
  Claim C2. Start from counter 0 and send three messages that each fall through the
  cascade. The first call answers with the "please rephrase" reply and leaves the counter
  at 1; the second answers with the capability listing and leaves it at 0; the third
  answers with the "please rephrase" reply again. The two replies are different texts.
\<close>

theorem three_unmatched_inputs:
  assumes "unmatched (strip (lower L m1))" and "unmatched (strip (lower L m2))"
    and "unmatched (strip (lower L m3))"
  shows "chat_run L 0 [message_body m1] = ([reply_response rephrase_reply], 1) \<and>
    chat_run L 0 [message_body m1, message_body m2] =
      ([reply_response rephrase_reply, reply_response capability_reply], 0) \<and>
    chat_run L 0 [message_body m1, message_body m2, message_body m3] =
      ([reply_response rephrase_reply, reply_response capability_reply,
        reply_response rephrase_reply], 1) \<and>
    rephrase_reply \<noteq> capability_reply"
  using assms by (simp add: chat_message_body chat_rules_fallthrough fallback_replies_differ)

lemma weather_unmatched: "unmatched (strip (lower (\<lambda>s. s) (ustr ''What is the weather?'')))"
  by (simp add: norm_defs unmatched_def rule_defs)

lemma joke_unmatched: "unmatched (strip (lower (\<lambda>s. s) (ustr ''  tell me a joke '')))"
  by (simp add: norm_defs unmatched_def rule_defs)

lemma pizza_unmatched: "unmatched (strip (lower (\<lambda>s. s) (ustr ''Pizza recipe'')))"
  by (simp add: norm_defs unmatched_def rule_defs)

theorem three_unmatched_inputs_witness:
  "unmatched (strip (lower (\<lambda>s. s) (ustr ''What is the weather?''))) \<and>
   unmatched (strip (lower (\<lambda>s. s) (ustr ''  tell me a joke ''))) \<and>
   unmatched (strip (lower (\<lambda>s. s) (ustr ''Pizza recipe''))) \<and>
   chat_run (\<lambda>s. s) 0 [message_body (ustr ''What is the weather?''),
       message_body (ustr ''  tell me a joke ''), message_body (ustr ''Pizza recipe'')] =
     ([reply_response rephrase_reply, reply_response capability_reply,
       reply_response rephrase_reply], 1)"
  using three_unmatched_inputs [OF weather_unmatched joke_unmatched pizza_unmatched]
    weather_unmatched joke_unmatched pizza_unmatched
  by simp

section \<open>Which rule answers\<close>

lemma norm_web_roles:
  "strip (lower L (ustr ''I'd like info on web developer roles'')) =
     ustr ''i'd like info on web developer roles''"
  by (simp add: norm_defs)

lemma norm_backend: "strip (lower L (ustr ''backend'')) = ustr ''backend''"
  by (simp add: norm_defs)

lemma norm_cybersecurity: "strip (lower L (ustr ''cybersecurity'')) = ustr ''cybersecurity''"
  by (simp add: norm_defs)

lemma rules_web_roles:
  "chat_rules (ustr ''i'd like info on web developer roles'') c = (web_developer_reply, 0)"
  by (simp add: chat_rules_def rule_defs ustr_def)

lemma rules_backend: "chat_rules (ustr ''backend'') c = (web_developer_reply, 0)"
  by (simp add: chat_rules_def rule_defs ustr_def)

lemma rules_cybersecurity: "chat_rules (ustr ''cybersecurity'') c = (thanks_reply, 0)"
  by (simp add: chat_rules_def rule_defs ustr_def)

text \<open>
  Claim C5. The messages "I'd like info on web developer roles" and "backend" get the
  same reply, the Web Developer text, from any counter values.
\<close>

theorem web_developer_disjunction:
  "chat L (message_body (ustr ''I'd like info on web developer roles'')) c =
     (reply_response web_developer_reply, 0) \<and>
   chat L (message_body (ustr ''backend'')) c' = (reply_response web_developer_reply, 0)"
  by (simp add: chat_message_body norm_web_roles norm_backend rules_web_roles rules_backend)

text \<open>
  Claim C9. The message "cybersecurity" gets the gratitude reply and not the
  Cybersecurity text: "ty" is a substring of it, the gratitude test comes before the
  cybersecurity test (which the message would pass), and the two replies differ.
\<close>

theorem cybersecurity_gets_gratitude_reply:
  "chat L (message_body (ustr ''cybersecurity'')) c = (reply_response thanks_reply, 0) \<and>
   thanks_reply \<noteq> cybersecurity_reply \<and>
   contains (ustr ''ty'') (ustr ''cybersecurity'') \<and>
   is_cybersecurity (ustr ''cybersecurity'')"
proof -
  have "thanks_reply \<noteq> cybersecurity_reply"
    by (simp add: thanks_reply_def cybersecurity_reply_def ustr_def)
  moreover have "contains (ustr ''ty'') (ustr ''cybersecurity'')"
    by (simp add: ustr_def)
  moreover have "is_cybersecurity (ustr ''cybersecurity'')"
    by (simp add: is_cybersecurity_def ustr_def)
  ultimately show ?thesis
    by (simp add: chat_message_body norm_cybersecurity rules_cybersecurity)
qed

section \<open>Registration\<close>

text \<open>
  Registration keeps the uniqueness constraints of the schema: the tables the program
  builds, starting from the empty one, all satisfy \<open>table_ok\<close>.
\<close>

lemma fold_max_ge: "(a::int) \<le> fold max xs a"
proof (induction xs arbitrary: a)
  case Nil
  show ?case by simp
next
  case (Cons x xs)
  have "a \<le> max x a" by simp
  also have "max x a \<le> fold max xs (max x a)" by (rule Cons.IH)
  finally show ?case by simp
qed

lemma fold_max_bound: "x \<in> set xs \<Longrightarrow> (x::int) \<le> fold max xs a"
proof (induction xs arbitrary: a)
  case Nil
  then show ?case by simp
next
  case (Cons y ys)
  show ?case
  proof (cases "x = y")
    case True
    have "x \<le> max y a" using True by simp
    also have "max y a \<le> fold max ys (max y a)" by (rule fold_max_ge)
    finally show ?thesis by simp
  next
    case False
    with Cons.prems have "x \<in> set ys" by simp
    from Cons.IH [OF this] show ?thesis by simp
  qed
qed

lemma next_id_fresh: "next_id rows \<notin> set (map row_id rows)"
proof
  assume "next_id rows \<in> set (map row_id rows)"
  from fold_max_bound [OF this, of 0] show False by (simp add: next_id_def)
qed

lemma register_user_keeps_table_ok:
  assumes "table_ok rows"
  shows "table_ok (snd (register_user B email_field password_field username_field now rows))"
proof (cases "\<exists>e p n. email_field = Some e \<and> password_field = Some p \<and>
    username_field = Some n \<and> e \<noteq> [] \<and> p \<noteq> [] \<and> n \<noteq> [] \<and> \<not> length p < 6 \<and>
    bind_all B [e, n] = Bound \<and> bind_all B [n, e, p, now] = Bound \<and>
    find (\<lambda>u. email u = e \<or> username u = n) rows = None")
  case True
  then obtain e p n where f: "email_field = Some e" "password_field = Some p"
    "username_field = Some n" "e \<noteq> []" "p \<noteq> []" "n \<noteq> []" "\<not> length p < 6"
    "bind_all B [e, n] = Bound" "bind_all B [n, e, p, now] = Bound"
    "find (\<lambda>u. email u = e \<or> username u = n) rows = None" by blast
  from f(10) have fresh: "e \<notin> set (map email rows)" "n \<notin> set (map username rows)"
    by (auto simp add: find_None_iff)
  from f have "snd (register_user B email_field password_field username_field now rows) =
    rows @ [\<lparr>row_id = next_id rows, username = n, email = e, password = p, member_since = now\<rparr>]"
    by (simp add: register_user_def)
  with assms fresh next_id_fresh [of rows] show ?thesis
    by (simp add: table_ok_def)
next
  case False
  then have "snd (register_user B email_field password_field username_field now rows) = rows"
    by (auto simp add: register_user_def split: option.splits bind_outcome.splits)
  with assms show ?thesis by simp
qed

lemma one_row_with_key:
  "distinct (map f rows) \<Longrightarrow> u \<in> set rows \<Longrightarrow> length (filter (\<lambda>r. f r = f u) rows) = 1"
proof (induction rows)
  case Nil
  then show ?case by simp
next
  case (Cons r rows)
  show ?case
  proof (cases "f r = f u")
    case True
    with Cons.prems have "\<forall>x\<in>set rows. f x \<noteq> f u" by (auto simp: image_iff)
    then have "filter (\<lambda>r. f r = f u) rows = []" by (simp add: filter_empty_conv)
    with True show ?thesis by simp
  next
    case False
    with Cons show ?thesis by auto
  qed
qed

lemma find_email_or_username:
  "u \<in> set rows \<Longrightarrow> email u = e \<Longrightarrow> find (\<lambda>r. email r = e \<or> username r = n) rows \<noteq> None"
  by (auto simp add: find_None_iff)

lemma bind_all_two: "B x = Bound \<Longrightarrow> B y = Bound \<Longrightarrow> bind_all B [x, y] = Bound"
  by simp

lemma sqlite_bind_ascii: "sqlite_bind (ustr s) = Bound"
proof -
  have "\<forall>c\<in>set (ustr s). c < 256"
    by (auto simp add: ustr_def)
  then have "\<not> list_ex (\<lambda>c. 0xD800 \<le> c \<and> c \<le> 0xDFFF) (ustr s)"
    by (fastforce simp add: list_ex_iff)
  then show ?thesis by (simp add: sqlite_bind_def)
qed

lemma sqlite_bind_surrogate: "sqlite_bind [0xD800] = Raises UnicodeEncodeError"
  by (simp add: sqlite_bind_def)

text \<open>
  Claim C6, as stated: whenever the table holds a user with the email, a registration
  with that email returns 409. That fails. The validation of the fields comes before
  the table is read, so a registration with the stored email and a password of 5
  characters is answered with 400. And the \<open>SELECT\<close> binds the username: with a
  username that cannot be bound the view raises instead of answering 409.
\<close>

theorem duplicate_email_not_always_409:
  "alice \<in> set [alice] \<and> email alice = ustr ''alice@example.org'' \<and>
   register_user sqlite_bind (Some (ustr ''alice@example.org'')) (Some (ustr ''abcde''))
       (Some (ustr ''bob'')) (ustr ''August 2025'') [alice] =
     (Inr (message ''Password must be at least 6 characters long.'' 400), [alice]) \<and>
   message ''Password must be at least 6 characters long.'' 400 \<noteq>
     message ''Email or username already registered.'' 409 \<and>
   register_user sqlite_bind (Some (ustr ''alice@example.org'')) (Some (ustr ''hunter22''))
       (Some [0xD800]) (ustr ''August 2025'') [alice] =
     (Inl UnicodeEncodeError, [alice])"
  by (simp add: register_user_def message_def alice_def ustr_def sqlite_bind_def)

text \<open>
  Claim C6, amended. Take a table that satisfies the uniqueness constraints and holds a
  user with email \<open>e\<close>. A registration with that email whose fields pass the validation
  (a username, and a password of 6 characters or more) and whose email and username the
  database binds returns 409; the table after the request is the table before it; and it
  holds exactly one row with email \<open>e\<close>.
\<close>

theorem duplicate_email_conflict:
  assumes "table_ok rows" and "u \<in> set rows" and "email u = e"
    and "e \<noteq> []" and "n \<noteq> []" and "6 \<le> length p"
    and "B e = Bound" and "B n = Bound"
  shows "register_user B (Some e) (Some p) (Some n) now rows =
      (Inr (message ''Email or username already registered.'' 409), rows) \<and>
    length (filter (\<lambda>r. email r = e)
      (snd (register_user B (Some e) (Some p) (Some n) now rows))) = 1"
proof -
  from assms(6) have p: "p \<noteq> []" "\<not> length p < 6" by auto
  from find_email_or_username [OF assms(2,3), of n]
  obtain x where "find (\<lambda>r. email r = e \<or> username r = n) rows = Some x" by auto
  with assms(4,5) p bind_all_two [OF assms(7,8)]
  have r: "register_user B (Some e) (Some p) (Some n) now rows =
      (Inr (message ''Email or username already registered.'' 409), rows)"
    by (simp add: register_user_def)
  from assms(1) have "distinct (map email rows)" by (simp add: table_ok_def)
  from one_row_with_key [OF this assms(2)] assms(3)
  have "length (filter (\<lambda>r. email r = e) rows) = 1" by simp
  with r show ?thesis by simp
qed

theorem duplicate_email_conflict_witness:
  "table_ok [alice] \<and> alice \<in> set [alice] \<and> email alice = ustr ''alice@example.org'' \<and>
   ustr ''alice@example.org'' \<noteq> [] \<and> ustr ''bob'' \<noteq> [] \<and> 6 \<le> length (ustr ''hunter22'') \<and>
   sqlite_bind (ustr ''alice@example.org'') = Bound \<and> sqlite_bind (ustr ''bob'') = Bound \<and>
   register_user sqlite_bind (Some (ustr ''alice@example.org'')) (Some (ustr ''hunter22''))
       (Some (ustr ''bob'')) (ustr ''August 2025'') [alice] =
     (Inr (message ''Email or username already registered.'' 409), [alice])"
proof -
  have h: "table_ok [alice]" "alice \<in> set [alice]" "email alice = ustr ''alice@example.org''"
    "ustr ''alice@example.org'' \<noteq> []" "ustr ''bob'' \<noteq> []" "6 \<le> length (ustr ''hunter22'')"
    "sqlite_bind (ustr ''alice@example.org'') = Bound" "sqlite_bind (ustr ''bob'') = Bound"
    by (simp_all add: table_ok_def alice_def sqlite_bind_ascii) (simp_all add: ustr_def)
  from duplicate_email_conflict [OF h, of "ustr ''August 2025''"] h show ?thesis by simp
qed

text \<open>
  Claim C7. A registration whose username, email or password is missing or empty, or
  whose password has fewer than 6 characters, is answered with status 400, and the table
  is left as it was: no row is inserted.
\<close>

theorem invalid_registration_rejected:
  assumes "missing username_field \<or> missing email_field \<or> missing password_field \<or>
     (\<exists>p. password_field = Some p \<and> length p < 6)"
  shows "\<exists>text. register_user B email_field password_field username_field now rows =
     (Inr (message text 400), rows)"
  using assms
  by (auto simp add: register_user_def missing_def split: option.splits)

theorem invalid_registration_rejected_witness:
  "length (ustr ''abcde'') < 6 \<and>
   register_user sqlite_bind (Some (ustr ''bob@example.org'')) (Some (ustr ''abcde''))
       (Some (ustr ''bob'')) (ustr ''August 2025'') [alice] =
     (Inr (message ''Password must be at least 6 characters long.'' 400), [alice])"
proof -
  have h: "length (ustr ''abcde'') < 6" by (simp add: ustr_def)
  then have "missing (Some (ustr ''bob'')) \<or> missing (Some (ustr ''bob@example.org'')) \<or>
     missing (Some (ustr ''abcde'')) \<or>
     (\<exists>p. Some (ustr ''abcde'') = Some p \<and> length p < 6)" by simp
  from invalid_registration_rejected [OF this, of sqlite_bind "ustr ''August 2025''" "[alice]"] h
  show ?thesis by (simp add: register_user_def ustr_def)
qed

section \<open>Login\<close>

text \<open>
  Claim C8, as stated: a stored email with a wrong password, and an unknown email, both
  get 401. That fails. An empty password is a wrong password for every stored user, and
  it is answered with 400 before the table is read. And the \<open>SELECT\<close> binds the email:
  with an unknown email that cannot be bound the view raises instead of answering 401.
\<close>

theorem login_failure_not_always_401:
  "alice \<in> set [alice] \<and> email alice = ustr ''alice@example.org'' \<and>
   password alice \<noteq> [] \<and>
   login_user sqlite_bind (Some (ustr ''alice@example.org'')) (Some []) [alice] no_session =
     (Inr (message ''Email and password are required.'' 400), no_session) \<and>
   message ''Email and password are required.'' 400 \<noteq> message ''Invalid email or password.'' 401 \<and>
   [0xD800] \<notin> set (map email [alice]) \<and>
   login_user sqlite_bind (Some [0xD800]) (Some (ustr ''secret1'')) [alice] no_session =
     (Inl UnicodeEncodeError, no_session)"
  by (simp add: login_user_def message_def alice_def ustr_def sqlite_bind_def)

text \<open>
  Claim C8, amended. Among the logins whose email and password are not empty and whose
  email the database binds: a login with the email of a stored user and a password that
  is not that user's, and a login with an email no stored user has, get the same
  response, status 401 with the message "Invalid email or password."; neither changes
  the session.
\<close>

theorem login_failures_indistinguishable:
  assumes "find (\<lambda>r. email r = e1) rows = Some u" and "password u \<noteq> p1"
    and "e1 \<noteq> []" and "p1 \<noteq> []" and "B e1 = Bound"
    and "find (\<lambda>r. email r = e2) rows = None" and "e2 \<noteq> []" and "p2 \<noteq> []"
    and "B e2 = Bound"
  shows "login_user B (Some e1) (Some p1) rows sess =
      (Inr (message ''Invalid email or password.'' 401), sess) \<and>
    login_user B (Some e2) (Some p2) rows sess =
      (Inr (message ''Invalid email or password.'' 401), sess)"
  using assms by (simp add: login_user_def)

theorem login_failures_indistinguishable_witness:
  "find (\<lambda>r. email r = ustr ''alice@example.org'') [alice] = Some alice \<and>
   password alice \<noteq> ustr ''letmein'' \<and>
   sqlite_bind (ustr ''alice@example.org'') = Bound \<and>
   find (\<lambda>r. email r = ustr ''carol@example.org'') [alice] = None \<and>
   sqlite_bind (ustr ''carol@example.org'') = Bound \<and>
   login_user sqlite_bind (Some (ustr ''alice@example.org'')) (Some (ustr ''letmein''))
       [alice] no_session =
     login_user sqlite_bind (Some (ustr ''carol@example.org'')) (Some (ustr ''secret1''))
       [alice] no_session \<and>
   login_user sqlite_bind (Some (ustr ''alice@example.org'')) (Some (ustr ''letmein''))
       [alice] no_session =
     (Inr (message ''Invalid email or password.'' 401), no_session)"
proof -
  have h: "find (\<lambda>r. email r = ustr ''alice@example.org'') [alice] = Some alice"
    "password alice \<noteq> ustr ''letmein''" "ustr ''alice@example.org'' \<noteq> []"
    "ustr ''letmein'' \<noteq> []" "sqlite_bind (ustr ''alice@example.org'') = Bound"
    "find (\<lambda>r. email r = ustr ''carol@example.org'') [alice] = None"
    "ustr ''carol@example.org'' \<noteq> []" "ustr ''secret1'' \<noteq> []"
    "sqlite_bind (ustr ''carol@example.org'') = Bound"
    by (simp_all add: alice_def sqlite_bind_ascii) (simp_all add: ustr_def)
  from login_failures_indistinguishable [OF h, of no_session] h show ?thesis by simp
qed

text \<open>The right password does log in, so the 401 above is no constant answer.\<close>

lemma login_success:
  "fst (login_user sqlite_bind (Some (ustr ''alice@example.org'')) (Some (ustr ''secret1''))
     [alice] no_session) = Inr (message ''Login successful!'' 200)"
  by (simp add: login_user_def alice_def sqlite_bind_ascii) (simp add: ustr_def)

text \<open>A storage error while binding is caught and answered with 500.\<close>

lemma login_storage_error:
  "e \<noteq> [] \<Longrightarrow> p \<noteq> [] \<Longrightarrow> B e = SqliteError text \<Longrightarrow>
   login_user B (Some e) (Some p) rows sess =
     (Inr (message ''Login failed. Please try again.'' 500), sess)"
  by (simp add: login_user_def)

section \<open>The profile endpoint without a session\<close>

text \<open>
  Claim C1 says that \<open>GET /get_user_profile\<close> without a session is answered with 401 and
  an authentication-failure message, not with a redirect. The view has that guard, and
  called directly it returns the 401. But the path is not among the paths \<open>check_auth\<close>
  lets through, so \<open>check_auth\<close> answers first with the redirect to \<open>/login\<close> and the
  view's guard is never reached.
\<close>

theorem get_user_profile_without_session:
  "serve_get_user_profile no_session rows = Redirect ''/login'' 302 \<and>
   get_user_profile no_session rows = message ''Not authenticated.'' 401 \<and>
   serve_get_user_profile no_session rows \<noteq> get_user_profile no_session rows"
  by (simp add: serve_get_user_profile_def check_auth_def endpoint_of_def no_session_def
      get_user_profile_def message_def)

end
